theory Spec2Isabelle
  imports Main "HOL-Library.Word"
begin

section \<open>Go runtime and library behaviour used by the package\<close>

text \<open>
  Go strings are byte sequences, modelled as \<open>string\<close> (a list of 8-bit characters).
  A function of the package either returns normally, returns an error value, or panics.
  The three run-time panics that the code of the package can raise are kept apart from
  the error values it returns: \<open>Errorf\<close> is an error built by \<open>fmt.Errorf\<close> (it carries the
  formatted message), \<open>External\<close> is an error handed back by a collaborator (the remote
  client, the iterator, the signer).
\<close>

datatype 'e failure =
    Errorf string
  | External 'e
  | IndexOutOfRange
  | NilDereference
  | TypeAssertion

text \<open>
  \<open>strings.Split(s, sep)\<close> for a separator of one byte: the pieces of \<open>s\<close> between the
  occurrences of the separator, in order. A string with \<open>n\<close> separators gives \<open>n + 1\<close>
  pieces, so the empty string gives one empty piece.
\<close>

fun Split :: "char \<Rightarrow> string \<Rightarrow> string list" where
  "Split sep [] = [[]]"
| "Split sep (c # cs) =
     (if c = sep then [] # Split sep cs
      else (case Split sep cs of [] \<Rightarrow> [[c]] | p # ps \<Rightarrow> (c # p) # ps))"

text \<open>Indexing a slice: Go panics when the index is not below the length.\<close>

definition index :: "'a list \<Rightarrow> nat \<Rightarrow> 'e failure + 'a" where
  "index xs i = (if i < length xs then Inr (xs ! i) else Inl IndexOutOfRange)"

text \<open>Indexing a map with string values: a missing key gives the empty string.\<close>

definition map_index :: "('k \<Rightarrow> string option) \<Rightarrow> 'k \<Rightarrow> string" where
  "map_index m k = (case m k of None \<Rightarrow> [] | Some v \<Rightarrow> v)"

section \<open>Collaborators outside the package\<close>

text \<open>
  The signing secret of package \<open>secrets\<close>. The package under study reads only
  \<open>SecretName\<close>; the key material is carried along untouched.
\<close>

record PgpSigningSecret =
  PrivateKey :: string
  PublicKey :: string
  SecretName :: string

text \<open>
  What the package takes from outside its own file, as parameters:
  \<^item> \<open>ParseReference s\<close> stands for \<open>name.ParseReference(s, name.WeakValidation)\<close> followed
    by \<open>ref.Context().RegistryStr()\<close>: \<open>None\<close> when parsing fails, otherwise the registry
    host of the parsed reference (the only part of the reference the package reads);
  \<^item> \<open>ResourceUrlPrefix\<close> and \<open>PageSize\<close> are the constants of package \<open>constants\<close>;
  \<^item> \<open>QuoteOther\<close> is the part of the \<open>%q\<close> verb of \<open>fmt.Sprintf\<close> that rests on the
    Unicode tables and the UTF-8 decoder of the Go library: for a string whose first byte
    is not a printable ASCII character, what \<open>%q\<close> writes for the character at the head of
    the string, and the number of bytes after the first that belong to that character;
  \<^item> \<open>CreateAttestationSignature\<close> is the signer of package \<open>util\<close>;
  \<^item> \<open>Severity_name\<close> is the generated table \<open>VulnerabilityType_Severity_name\<close>.
\<close>

record 'e externals =
  ParseReference :: "string \<Rightarrow> string option"
  ResourceUrlPrefix :: string
  PageSize :: "32 word"
  QuoteOther :: "string \<Rightarrow> string \<times> nat"
  CreateAttestationSignature :: "string \<Rightarrow> PgpSigningSecret option \<Rightarrow> 'e + string"
  Severity_name :: "32 word \<Rightarrow> string option"

section \<open>Quoting\<close>

text \<open>
  The \<open>%q\<close> verb of \<open>fmt.Sprintf\<close> on a string operand writes the operand as a Go string
  literal: a double quote, the characters of the operand in order, a double quote. A
  double quote or a backslash of the operand is written with a backslash before it; any
  other printable ASCII character (bytes \<open>0x20\<close> to \<open>0x7E\<close>) is written as it is; for any
  other character the library writes what \<open>QuoteOther\<close> stands for and moves past the bytes
  of that character.
\<close>

definition printable :: "char \<Rightarrow> bool" where
  "printable c \<longleftrightarrow> 0x20 \<le> (of_char c :: nat) \<and> (of_char c :: nat) \<le> 0x7E"

function quoteBody :: "(string \<Rightarrow> string \<times> nat) \<Rightarrow> string \<Rightarrow> string" where
  "quoteBody other [] = []"
| "quoteBody other (c # cs) =
     (if c = CHR 0x22 \<or> c = CHR 0x5C then CHR 0x5C # c # quoteBody other cs
      else if printable c then c # quoteBody other cs
      else fst (other (c # cs)) @ quoteBody other (drop (snd (other (c # cs))) cs))"
  by pat_completeness auto
termination
  by (relation "measure (\<lambda>(other, s). length s)") auto

definition Sprintf_q :: "('e, 'x) externals_scheme \<Rightarrow> string \<Rightarrow> string" where
  "Sprintf_q ext s = CHR 0x22 # quoteBody (QuoteOther ext) s @ [CHR 0x22]"

section \<open>Image validation and naming\<close>

definition isRegistryGCR :: "string \<Rightarrow> bool" where
  "isRegistryGCR r =
     (let registry = Split CHR ''.'' r in
      if length registry < 2 then False
      else if registry ! (length registry - 2) \<noteq> ''gcr''
            \<or> registry ! (length registry - 1) \<noteq> ''io'' then False
      else True)"

text \<open>
  On a parse failure \<open>isValidImageOnGCR\<close> logs a warning before it returns; the log is not
  part of any result and is left out.
\<close>

definition isValidImageOnGCR :: "('e, 'x) externals_scheme \<Rightarrow> string \<Rightarrow> bool" where
  "isValidImageOnGCR ext containerImage =
     (case ParseReference ext containerImage of
        None \<Rightarrow> False
      | Some registryStr \<Rightarrow> isRegistryGCR registryStr)"

definition getResourceUrl :: "('e, 'x) externals_scheme \<Rightarrow> string \<Rightarrow> string" where
  "getResourceUrl ext containerImage = ResourceUrlPrefix ext @ containerImage"

text \<open>On failure the Go function returns the empty string beside the error.\<close>

definition getProjectFromNoteReference :: "string \<Rightarrow> 'e failure + string" where
  "getProjectFromNoteReference ref =
     (let str = Split CHR ''/'' ref in
      if length str < 3
      then Inl (Errorf ''Invalid Note Reference. Should be in format <api>/projects/<project_id'')
      else Inr (str ! 2))"

section \<open>Messages of the analysis service\<close>

text \<open>
  The generated protocol-buffer messages, with the fields the package reads or sets. A
  pointer is an \<open>option\<close> (\<open>None\<close> is \<open>nil\<close>), a \<open>oneof\<close> field is a datatype with one
  constructor per wrapper type (the wrapper itself is never \<open>nil\<close>; a \<open>oneof\<close> that is not
  set is \<open>None\<close>), and a generated getter \<open>GetX\<close> returns the zero value on a \<open>nil\<close>
  receiver, as the generated code does. Reading a field directly through a \<open>nil\<close> pointer
  panics.
\<close>

datatype VersionKind = NORMAL | MINIMUM | MAXIMUM

record VulnerabilityType_Version =
  Kind :: VersionKind

record VulnerabilityType_VulnerabilityLocation =
  Version :: "VulnerabilityType_Version option"

record VulnerabilityType_PackageIssue =
  FixedLocation :: "VulnerabilityType_VulnerabilityLocation option"

record VulnerabilityType_VulnerabilityDetails =
  Severity :: "32 word"
  PackageIssue :: "VulnerabilityType_PackageIssue option list"

datatype PgpSignedAttestation_KeyId = PgpSignedAttestation_PgpKeyId string

record PgpSignedAttestation =
  Signature :: string
  KeyId :: "PgpSignedAttestation_KeyId option"

datatype AttestationAuthority_Attestation_Signature =
  AttestationAuthority_Attestation_PgpSignedAttestation "PgpSignedAttestation option"

record AttestationAuthority_Attestation =
  Signature :: "AttestationAuthority_Attestation_Signature option"

datatype Occurrence_Details =
    Occurrence_VulnerabilityDetails "VulnerabilityType_VulnerabilityDetails option"
  | Occurrence_Attestation "AttestationAuthority_Attestation option"
  | Occurrence_OtherDetails

record Occurrence =
  ResourceUrl :: string
  NoteName :: string
  Details :: "Occurrence_Details option"

record AttestationAuthority_AttestationAuthorityHint =
  HumanReadableName :: string

record pb_AttestationAuthority =
  Hint :: "AttestationAuthority_AttestationAuthorityHint option"

datatype Note_NoteType =
    Note_AttestationAuthority "pb_AttestationAuthority option"
  | Note_OtherType

record Note =
  Name :: string
  ShortDescription :: string
  LongDescription :: string
  NoteType :: "Note_NoteType option"

record ListOccurrencesRequest =
  Filter :: string
  PageSize :: "32 word"
  Parent :: string

record CreateNoteRequest =
  Note :: "Note option"
  NoteId :: string
  Parent :: string

record CreateOccurrenceRequest =
  Occurrence :: "Occurrence option"
  Parent :: string

definition GetFixedLocation ::
  "VulnerabilityType_PackageIssue option \<Rightarrow> VulnerabilityType_VulnerabilityLocation option" where
  "GetFixedLocation m = (case m of None \<Rightarrow> None | Some x \<Rightarrow> FixedLocation x)"

definition GetVersion ::
  "VulnerabilityType_VulnerabilityLocation option \<Rightarrow> VulnerabilityType_Version option" where
  "GetVersion m = (case m of None \<Rightarrow> None | Some x \<Rightarrow> Version x)"

definition GetPackageIssue ::
  "VulnerabilityType_VulnerabilityDetails option \<Rightarrow> VulnerabilityType_PackageIssue option list" where
  "GetPackageIssue m = (case m of None \<Rightarrow> [] | Some x \<Rightarrow> PackageIssue x)"

definition GetDetails :: "Occurrence option \<Rightarrow> Occurrence_Details option" where
  "GetDetails m = (case m of None \<Rightarrow> None | Some x \<Rightarrow> Details x)"

definition GetNoteName :: "Occurrence option \<Rightarrow> string" where
  "GetNoteName m = (case m of None \<Rightarrow> [] | Some x \<Rightarrow> NoteName x)"

definition GetName :: "Note option \<Rightarrow> string" where
  "GetName m = (case m of None \<Rightarrow> [] | Some x \<Rightarrow> Note.Name x)"

text \<open>The result type of package \<open>metadata\<close> and the authority resource of the cluster API.\<close>

record Vulnerability =
  Severity :: string
  HasFixAvailable :: bool
  CVE :: string

record AttestationAuthority =
  Name :: string
  Namespace :: string
  NoteReference :: string

text \<open>
  The remote client. \<open>ListOccurrences\<close> returns an iterator, whose state is explicit;
  \<open>Next\<close> gives the next occurrence, the sentinel \<open>iterator.Done\<close>, or another error. Every
  operation of the package returns, beside its result, the calls it made to its
  collaborators, in order.
\<close>

datatype 'e iterator_result = Item "Occurrence option" | Done | Failed 'e

record ('e, 'it) Client =
  ListOccurrences :: "ListOccurrencesRequest \<Rightarrow> 'it"
  Next :: "'it \<Rightarrow> 'e iterator_result \<times> 'it"
  CreateNote :: "CreateNoteRequest \<Rightarrow> 'e + Note option"
  CreateOccurrence :: "CreateOccurrenceRequest \<Rightarrow> 'e + Occurrence option"

datatype call =
    Called_CreateAttestationSignature string "PgpSigningSecret option"
  | Called_ListOccurrences ListOccurrencesRequest
  | Called_Next
  | Called_CreateNote CreateNoteRequest
  | Called_CreateOccurrence CreateOccurrenceRequest

section \<open>Listing occurrences\<close>

text \<open>
  The \<open>for\<close> loop of \<open>fethcOccurrence\<close>. It ends when the iterator signals \<open>Done\<close> or fails;
  an iterator that keeps producing items keeps it running, which is the value \<open>None\<close>.
\<close>

partial_function (option) fethcOccurrence_loop ::
  "('e, 'it, 'y) Client_scheme \<Rightarrow> 'it \<Rightarrow> Occurrence option list \<Rightarrow> call list
     \<Rightarrow> (('e failure + Occurrence option list) \<times> call list) option" where
  "fethcOccurrence_loop c it occs calls =
     (case Next c it of
        (Done, it') \<Rightarrow> Some (Inr occs, calls @ [Called_Next])
      | (Failed err, it') \<Rightarrow> Some (Inl (External err), calls @ [Called_Next])
      | (Item occ, it') \<Rightarrow> fethcOccurrence_loop c it' (occs @ [occ]) (calls @ [Called_Next]))"

definition fethcOccurrence ::
  "('e, 'x) externals_scheme \<Rightarrow> ('e, 'it, 'y) Client_scheme \<Rightarrow> string \<Rightarrow> string
     \<Rightarrow> (('e failure + Occurrence option list) \<times> call list) option" where
  "fethcOccurrence ext c containerImage kind =
     (if \<not> isValidImageOnGCR ext containerImage
      then Some (Inl (Errorf (containerImage @ '' is not a valid image hosted in GCR'')), [])
      else (case index (Split CHR ''/'' containerImage) 1 of
              Inl panic \<Rightarrow> Some (Inl panic, [])
            | Inr project \<Rightarrow>
                (let req = \<lparr>Filter = ''resource_url=''
                                @ Sprintf_q ext (getResourceUrl ext containerImage)
                                @ '' AND kind='' @ Sprintf_q ext kind,
                            PageSize = externals.PageSize ext,
                            Parent = ''projects/'' @ project\<rparr>
                 in fethcOccurrence_loop c (ListOccurrences c req) []
                      [Called_ListOccurrences req])))"

section \<open>Vulnerabilities\<close>

fun isFixAvaliable :: "VulnerabilityType_PackageIssue option list \<Rightarrow> 'e failure + bool" where
  "isFixAvaliable [] = Inr True"
| "isFixAvaliable (p # pis) =
     (case GetVersion (GetFixedLocation p) of
        None \<Rightarrow> Inl NilDereference
      | Some v \<Rightarrow> if Kind v = MAXIMUM then Inr False else isFixAvaliable pis)"

definition GetVulnerabilityFromOccurence ::
  "('e, 'x) externals_scheme \<Rightarrow> Occurrence option \<Rightarrow> 'e failure + Vulnerability" where
  "GetVulnerabilityFromOccurence ext occ =
     (case GetDetails occ of
        Some (Occurrence_VulnerabilityDetails vulnDetails) \<Rightarrow>
          (case isFixAvaliable (GetPackageIssue vulnDetails) of
             Inl panic \<Rightarrow> Inl panic
           | Inr hasFixAvailable \<Rightarrow>
               (case vulnDetails of
                  None \<Rightarrow> Inl NilDereference
                | Some d \<Rightarrow>
                    Inr \<lparr>Severity =
                           map_index (Severity_name ext)
                             (VulnerabilityType_VulnerabilityDetails.Severity d),
                         HasFixAvailable = hasFixAvailable,
                         CVE = GetNoteName occ\<rparr>))
      | _ \<Rightarrow> Inl TypeAssertion)"

section \<open>Attestation notes and occurrences\<close>

definition PkgVulnerability :: string where
  "PkgVulnerability = ''PACKAGE_VULNERABILITY''"


definition CreateAttestationOccurence ::
  "('e, 'x) externals_scheme \<Rightarrow> ('e, 'it, 'y) Client_scheme \<Rightarrow> Note option \<Rightarrow> string
     \<Rightarrow> PgpSigningSecret option \<Rightarrow> ('e failure + Occurrence option) \<times> call list" where
  "CreateAttestationOccurence ext c note containerImage pgpSigningKey =
     (if \<not> isValidImageOnGCR ext containerImage
      then (Inl (Errorf (containerImage @ '' is not a valid image hosted in GCR'')), [])
      else
        (let signed = [Called_CreateAttestationSignature containerImage pgpSigningKey] in
         case CreateAttestationSignature ext containerImage pgpSigningKey of
           Inl err \<Rightarrow> (Inl (External err), signed)
         | Inr sig \<Rightarrow>
             (case pgpSigningKey of
                None \<Rightarrow> (Inl NilDereference, signed)
              | Some key \<Rightarrow>
                  (let pgpSignedAttestation =
                         \<lparr>PgpSignedAttestation.Signature = sig,
                          KeyId = Some (PgpSignedAttestation_PgpKeyId (SecretName key))\<rparr>;
                       attestationDetails =
                         Occurrence_Attestation
                           (Some \<lparr>AttestationAuthority_Attestation.Signature =
                                    Some (AttestationAuthority_Attestation_PgpSignedAttestation
                                            (Some pgpSignedAttestation))\<rparr>);
                       occ = \<lparr>ResourceUrl = getResourceUrl ext containerImage,
                              NoteName = GetName note,
                              Details = Some attestationDetails\<rparr>
                   in case index (Split CHR ''/'' containerImage) 1 of
                        Inl panic \<Rightarrow> (Inl panic, signed)
                      | Inr project \<Rightarrow>
                          (let req = \<lparr>Occurrence = Some occ,
                                      CreateOccurrenceRequest.Parent = ''projects/'' @ project\<rparr>
                           in ((case CreateOccurrence c req of
                                  Inl err \<Rightarrow> Inl (External err)
                                | Inr created \<Rightarrow> Inr created),
                               signed @ [Called_CreateOccurrence req]))))))"

section \<open>The reference parser of the registry library\<close>

text \<open>
  Modelled from the spec: \<open>name.ParseReference\<close> belongs to the container-registry library
  and is not among the sources. The spec has it parse ``a structured image reference
  (registry host + path + optional tag/digest) using weak/lenient validation (accepts
  missing tag \<dots>; does not require resolvability)'', for references of the form
  \<open>registry/project/repository[:tag|@digest]\<close>. The model follows the library's own
  decomposition under weak validation: a reference is read as a tagged name, and failing
  that as a name with a digest; the tag is what follows the last \<open>:\<close> when that part holds
  no \<open>/\<close>; the registry is what precedes the first \<open>/\<close> when that part holds a \<open>.\<close> or a
  \<open>:\<close>, and the default registry otherwise. The library's check that a registry is a URI
  authority is the parameter \<open>checkRegistry\<close>. A parsed name is the pair of its registry
  and its repository path.
\<close>

text \<open>
  Modelled from the spec: the library's character and length checks on a tag, a
  repository path and a digest. An element passes when its length is within the bounds
  and each of its characters is among the allowed ones.
\<close>

definition checkElement :: "string \<Rightarrow> nat \<Rightarrow> nat \<Rightarrow> string \<Rightarrow> bool" where
  "checkElement allowedRunes minRunes maxRunes element =
     (\<not> (length element < minRunes \<or> maxRunes < length element)
      \<and> list_all (\<lambda>r. r \<in> set allowedRunes) element)"

definition checkTag :: "string \<Rightarrow> bool" where
  "checkTag = checkElement
     ''abcdefghijklmnopqrstuvwxyzABCDEFGHIJKLMNOPQRSTUVWXYZ0123456789_-.'' 1 127"

definition checkRepository :: "string \<Rightarrow> bool" where
  "checkRepository = checkElement ''abcdefghijklmnopqrstuvwxyz0123456789_-./'' 2 255"

definition checkDigest :: "string \<Rightarrow> bool" where
  "checkDigest = checkElement ''sh:0123456789abcdef'' 71 71"

definition DefaultRegistry :: string where
  "DefaultRegistry = ''index.docker.io''"

text \<open>
  \<open>strings.Join\<close> with a separator of one byte, and \<open>strings.SplitN(s, sep, 2)\<close>: the
  string cut at the first separator, or the string alone when it has none.
\<close>

fun Join :: "string list \<Rightarrow> char \<Rightarrow> string" where
  "Join [] sep = []"
| "Join [a] sep = a"
| "Join (a # b # bs) sep = a @ sep # Join (b # bs) sep"

definition SplitN2 :: "char \<Rightarrow> string \<Rightarrow> string list" where
  "SplitN2 sep s =
     (if sep \<in> set s
      then [takeWhile (\<lambda>c. c \<noteq> sep) s, tl (dropWhile (\<lambda>c. c \<noteq> sep) s)]
      else [s])"

text \<open>
  Modelled from the spec: a registry of the library. The alias \<open>docker.io\<close> is rewritten to
  the default registry, and a registry left empty reads as the default registry.
\<close>

definition NewRegistry :: "(string \<Rightarrow> bool) \<Rightarrow> string \<Rightarrow> string option" where
  "NewRegistry checkRegistry name =
     (if \<not> checkRegistry name then None
      else if name = ''docker.io'' then Some DefaultRegistry
      else Some name)"

definition RegistryStr :: "string \<Rightarrow> string" where
  "RegistryStr registry = (if registry \<noteq> [] then registry else DefaultRegistry)"

text \<open>
  Modelled from the spec: a repository of the library. The part before the first \<open>/\<close> is
  the registry if and only if it holds a \<open>.\<close> or a \<open>:\<close>; otherwise the whole name is the
  repository path and the registry is left empty.
\<close>

definition NewRepository :: "(string \<Rightarrow> bool) \<Rightarrow> string \<Rightarrow> (string \<times> string) option" where
  "NewRepository checkRegistry name =
     (if name = [] then None
      else
        (let parts = SplitN2 CHR ''/'' name;
             (registry, repo) =
               (if length parts = 2
                   \<and> (CHR ''.'' \<in> set (parts ! 0) \<or> CHR '':'' \<in> set (parts ! 0))
                then (parts ! 0, parts ! 1)
                else ([], name))
         in if \<not> checkRepository repo then None
            else (case NewRegistry checkRegistry registry of
                    None \<Rightarrow> None
                  | Some reg \<Rightarrow> Some (reg, repo))))"

text \<open>
  Modelled from the spec: a tagged name and a name with a digest. Under weak validation a
  tag or digest is checked only when it is not empty.
\<close>

definition NewTag :: "(string \<Rightarrow> bool) \<Rightarrow> string \<Rightarrow> ((string \<times> string) \<times> string) option" where
  "NewTag checkRegistry name =
     (let parts = Split CHR '':'' name;
          (base, tag) =
            (if 1 < length parts \<and> CHR ''/'' \<notin> set (last parts)
             then (Join (butlast parts) CHR '':'', last parts)
             else (name, []))
      in if tag \<noteq> [] \<and> \<not> checkTag tag then None
         else (case NewRepository checkRegistry base of
                 None \<Rightarrow> None
               | Some repo \<Rightarrow> Some (repo, tag)))"

definition NewDigest :: "(string \<Rightarrow> bool) \<Rightarrow> string \<Rightarrow> ((string \<times> string) \<times> string) option" where
  "NewDigest checkRegistry name =
     (let parts = Split CHR ''@'' name in
      if length parts \<noteq> 2 then None
      else
        (let base = parts ! 0; digest = parts ! 1 in
         if digest \<noteq> [] \<and> \<not> checkDigest digest then None
         else (case NewRepository checkRegistry base of
                 None \<Rightarrow> None
               | Some repo \<Rightarrow> Some (repo, digest))))"

text \<open>
  Modelled from the spec: \<open>name.ParseReference\<close> under weak validation, followed by the
  registry host of the parsed reference (\<open>ref.Context().RegistryStr()\<close>).
\<close>

definition name_ParseReference :: "(string \<Rightarrow> bool) \<Rightarrow> string \<Rightarrow> string option" where
  "name_ParseReference checkRegistry s =
     (case NewTag checkRegistry s of
        Some (repo, tag) \<Rightarrow> Some (RegistryStr (fst repo))
      | None \<Rightarrow>
          (case NewDigest checkRegistry s of
             Some (repo, digest) \<Rightarrow> Some (RegistryStr (fst repo))
           | None \<Rightarrow> None))"

section \<open>Vocabulary of the properties\<close>

text \<open>The kind of the version of the fixed location of a package issue, when there is one.\<close>

definition versionKind :: "VulnerabilityType_PackageIssue option \<Rightarrow> VersionKind option" where
  "versionKind p = map_option Kind (GetVersion (GetFixedLocation p))"

text \<open>
  \<open>produces c it occs fin\<close>: queried from state \<open>it\<close>, the iterator of client \<open>c\<close> gives the
  occurrences \<open>occs\<close>, one per call, and answers the call after them with \<open>fin\<close>.
\<close>

fun produces ::
  "('e, 'it, 'y) Client_scheme \<Rightarrow> 'it \<Rightarrow> Occurrence option list \<Rightarrow> 'e iterator_result \<Rightarrow> bool" where
  "produces c it [] fin = (fst (Next c it) = fin)"
| "produces c it (occ # occs) fin =
     (case Next c it of
        (Item x, it') \<Rightarrow> x = occ \<and> produces c it' occs fin
      | (Done, it') \<Rightarrow> False
      | (Failed err, it') \<Rightarrow> False)"

text \<open>The request that \<open>fethcOccurrence\<close> builds for an image and a kind.\<close>

definition listRequest ::
  "('e, 'x) externals_scheme \<Rightarrow> string \<Rightarrow> string \<Rightarrow> ListOccurrencesRequest" where
  "listRequest ext containerImage kind =
     \<lparr>Filter = ''resource_url='' @ Sprintf_q ext (ResourceUrlPrefix ext @ containerImage)
                 @ '' AND kind='' @ Sprintf_q ext kind,
      PageSize = externals.PageSize ext,
      Parent = ''projects/'' @ Split CHR ''/'' containerImage ! 1\<rparr>"

text \<open>
  \<open>escape s\<close> is \<open>s\<close> with a backslash before each double quote and each backslash. A
  string is \<open>plain\<close> when it holds only printable ASCII characters other than the double
  quote and the backslash.
\<close>

fun escape :: "string \<Rightarrow> string" where
  "escape [] = []"
| "escape (c # cs) =
     (if c = CHR 0x22 \<or> c = CHR 0x5C then CHR 0x5C # c # escape cs else c # escape cs)"

definition plain :: "string \<Rightarrow> bool" where
  "plain s = list_all (\<lambda>c. printable c \<and> c \<noteq> CHR 0x22 \<and> c \<noteq> CHR 0x5C) s"

section \<open>Example collaborators\<close>

text \<open>
  Instances of the parameters, for evaluating the operations on concrete inputs. The
  example renders a byte outside printable ASCII as a hexadecimal escape of that byte
  alone.
\<close>

definition lowerhex :: "nat \<Rightarrow> char" where
  "lowerhex n = ''0123456789abcdef'' ! (n mod 16)"

definition hexEscape :: "string \<Rightarrow> string \<times> nat" where
  "hexEscape s =
     (case s of
        [] \<Rightarrow> ([], 0)
      | c # cs \<Rightarrow> ([CHR 0x5C, CHR ''x'', lowerhex (of_char c div 16), lowerhex (of_char c)], 0))"

definition exampleExternals :: "string externals" where
  "exampleExternals =
     \<lparr>ParseReference = name_ParseReference (\<lambda>authority. True),
      ResourceUrlPrefix = ''https://'',
      PageSize = 100,
      QuoteOther = hexEscape,
      CreateAttestationSignature =
        (\<lambda>image key. case key of None \<Rightarrow> Inl ''no key'' | Some k \<Rightarrow> Inr (''signed '' @ image)),
      Severity_name =
        map_of [(0, ''SEVERITY_UNSPECIFIED''), (1, ''MINIMAL''), (2, ''LOW''),
                (3, ''MEDIUM''), (4, ''HIGH''), (5, ''CRITICAL'')]\<rparr>"

definition exampleOccurrence :: "string \<Rightarrow> Occurrence option" where
  "exampleOccurrence n =
     Some \<lparr>ResourceUrl = ''https://gcr.io/proj/img'', NoteName = n,
           Details = Some (Occurrence_VulnerabilityDetails
                             (Some \<lparr>VulnerabilityType_VulnerabilityDetails.Severity = 4,
                                    PackageIssue =
                                      [Some \<lparr>FixedLocation =
                                               Some \<lparr>Version = Some \<lparr>Kind = NORMAL\<rparr>\<rparr>\<rparr>]\<rparr>))\<rparr>"

text \<open>
  A client whose listing has two occurrences, and one whose listing fails after the
  first. The iterator state is what remains to be answered.
\<close>

definition exampleClient :: "(string, string iterator_result list) Client" where
  "exampleClient =
     \<lparr>ListOccurrences =
        (\<lambda>req. [Item (exampleOccurrence ''CVE-1''), Item (exampleOccurrence ''CVE-2'')]),
      Next = (\<lambda>it. case it of [] \<Rightarrow> (Done, []) | r # rs \<Rightarrow> (r, rs)),
      CreateNote = (\<lambda>req. Inr (Note req)),
      CreateOccurrence = (\<lambda>req. Inr (Occurrence req))\<rparr>"

definition failingClient :: "(string, string iterator_result list) Client" where
  "failingClient =
     exampleClient\<lparr>ListOccurrences :=
        (\<lambda>req. [Item (exampleOccurrence ''CVE-1''), Failed ''unavailable''])\<rparr>"

section \<open>Properties\<close>

subsection \<open>Splitting\<close>

lemma Split_not_Nil: "Split sep s \<noteq> []"
  by (induction s) (auto split: list.splits)

lemma length_Split: "length (Split sep s) = Suc (count_list s sep)"
proof (induction s)
  case Nil
  show ?case by simp
next
  case (Cons c cs)
  then show ?case using Split_not_Nil [of sep cs]
    by (cases "Split sep cs") auto
qed

lemma count_list_pos_iff: "0 < count_list s x \<longleftrightarrow> x \<in> set s"
  by (induction s) auto

lemma Split_two_iff: "1 < length (Split sep s) \<longleftrightarrow> sep \<in> set s"
  using count_list_pos_iff [of s sep] by (simp add: length_Split)

lemma set_Split_subset: "p \<in> set (Split sep s) \<Longrightarrow> set p \<subseteq> set s"
proof (induction s arbitrary: p)
  case Nil
  then show ?case by simp
next
  case (Cons c cs)
  show ?case
  proof (cases "c = sep")
    case True
    with Cons show ?thesis by auto
  next
    case False
    obtain q qs where q: "Split sep cs = q # qs"
      using Split_not_Nil [of sep cs] by (cases "Split sep cs") auto
    with False Cons.prems have "p = c # q \<or> p \<in> set qs" by auto
    then show ?thesis
    proof
      assume "p = c # q"
      moreover have "set q \<subseteq> set cs" using Cons.IH [of q] q by simp
      ultimately show ?thesis by auto
    next
      assume "p \<in> set qs"
      then have "set p \<subseteq> set cs" using Cons.IH [of p] q by simp
      then show ?thesis by auto
    qed
  qed
qed

lemma last_two_nth:
  assumes "2 \<le> length ls"
  shows "drop (length ls - 2) ls = [ls ! (length ls - 2), ls ! (length ls - 1)]"
proof -
  obtain xs b where 1: "ls = xs @ [b]"
    using assms by (cases ls rule: rev_cases) auto
  with assms obtain ys a where 2: "xs = ys @ [a]"
    by (cases xs rule: rev_cases) auto
  show ?thesis unfolding 1 2 by (simp add: nth_append)
qed

subsection \<open>The image validator\<close>

lemma isRegistryGCR_iff:
  "isRegistryGCR r \<longleftrightarrow>
     2 \<le> length (Split CHR ''.'' r)
     \<and> drop (length (Split CHR ''.'' r) - 2) (Split CHR ''.'' r) = [''gcr'', ''io'']"
proof (cases "2 \<le> length (Split CHR ''.'' r)")
  case True
  then show ?thesis
    using last_two_nth [OF True] by (auto simp: isRegistryGCR_def Let_def)
next
  case False
  then show ?thesis by (auto simp: isRegistryGCR_def Let_def)
qed

lemma parse_docker_io:
  "name_ParseReference chk ''docker.io/proj/img''
     = (if chk ''docker.io'' then Some ''index.docker.io'' else None)"
  by (simp add: name_ParseReference_def NewTag_def NewDigest_def NewRepository_def
      NewRegistry_def RegistryStr_def DefaultRegistry_def SplitN2_def checkRepository_def
      checkElement_def Let_def)

lemma parse_us_gcr_io:
  "chk ''us.gcr.io'' \<Longrightarrow>
     name_ParseReference chk ''us.gcr.io/proj/img:tag'' = Some ''us.gcr.io''"
  by (simp add: name_ParseReference_def NewTag_def NewRepository_def
      NewRegistry_def RegistryStr_def SplitN2_def checkRepository_def checkTag_def
      checkElement_def Let_def)

lemma not_gcr_index_docker_io: "\<not> isRegistryGCR ''index.docker.io''"
  by (simp add: isRegistryGCR_def)

lemma gcr_us_gcr_io: "isRegistryGCR ''us.gcr.io''"
  by (simp add: isRegistryGCR_def)

text \<open>
  Claim C1. The validator rejects every string that does not parse as an image reference
  and every string whose registry host does not end in the two labels \<open>gcr\<close>, \<open>io\<close>; it
  accepts a string exactly when it parses and its registry host, split at the dots, has at
  least two labels of which the last two are \<open>gcr\<close> and \<open>io\<close>. With the library's parser,
  \<open>us.gcr.io/proj/img:tag\<close> is accepted and \<open>docker.io/proj/img\<close> is rejected.
\<close>

theorem isValidImageOnGCR_trusted_suffix:
  "(ParseReference ext s = None \<longrightarrow> \<not> isValidImageOnGCR ext s)
   \<and> (\<forall>r. ParseReference ext s = Some r \<longrightarrow>
          drop (length (Split CHR ''.'' r) - 2) (Split CHR ''.'' r) \<noteq> [''gcr'', ''io''] \<longrightarrow>
          \<not> isValidImageOnGCR ext s)
   \<and> (isValidImageOnGCR ext s \<longleftrightarrow>
        (\<exists>r. ParseReference ext s = Some r
           \<and> 2 \<le> length (Split CHR ''.'' r)
           \<and> drop (length (Split CHR ''.'' r) - 2) (Split CHR ''.'' r) = [''gcr'', ''io'']))
   \<and> (ParseReference ext = name_ParseReference chk \<longrightarrow> chk ''us.gcr.io'' \<longrightarrow>
        isValidImageOnGCR ext ''us.gcr.io/proj/img:tag'')
   \<and> (ParseReference ext = name_ParseReference chk \<longrightarrow>
        \<not> isValidImageOnGCR ext ''docker.io/proj/img'')"
proof -
  have general: "isValidImageOnGCR ext s \<longleftrightarrow>
        (\<exists>r. ParseReference ext s = Some r
           \<and> 2 \<le> length (Split CHR ''.'' r)
           \<and> drop (length (Split CHR ''.'' r) - 2) (Split CHR ''.'' r) = [''gcr'', ''io''])"
    by (cases "ParseReference ext s") (simp_all add: isValidImageOnGCR_def isRegistryGCR_iff)
  have accepted: "isValidImageOnGCR ext ''us.gcr.io/proj/img:tag''"
    if "ParseReference ext = name_ParseReference chk" and "chk ''us.gcr.io''"
    using that by (simp add: isValidImageOnGCR_def parse_us_gcr_io gcr_us_gcr_io)
  have rejected: "\<not> isValidImageOnGCR ext ''docker.io/proj/img''"
    if "ParseReference ext = name_ParseReference chk"
    using that by (simp add: isValidImageOnGCR_def parse_docker_io not_gcr_index_docker_io)
  from general accepted rejected show ?thesis by auto
qed

theorem isValidImageOnGCR_trusted_suffix_witness:
  "isValidImageOnGCR exampleExternals ''us.gcr.io/proj/img:tag''
   \<and> \<not> isValidImageOnGCR exampleExternals ''docker.io/proj/img''
   \<and> ParseReference exampleExternals ''us.gcr.io/proj/img:tag'' = Some ''us.gcr.io''"
proof -
  have p: "ParseReference exampleExternals = name_ParseReference (\<lambda>authority. True)"
    by (simp add: exampleExternals_def)
  have q: "ParseReference exampleExternals ''us.gcr.io/proj/img:tag'' = Some ''us.gcr.io''"
    by (simp add: p parse_us_gcr_io)
  from p q show ?thesis
    using isValidImageOnGCR_trusted_suffix
      [of exampleExternals "''us.gcr.io/proj/img:tag''" "\<lambda>authority. True"]
    by blast
qed

subsection \<open>Projects and resource locators\<close>

text \<open>
  Claim C5, amended. Deriving the owning project from a note reference fails with the
  malformed-reference error exactly when splitting the reference at \<open>/\<close> gives fewer than
  three segments, and otherwise returns the segment of index 2. For
  \<open>api/projects/my-proj\<close> the derived project is \<open>my-proj\<close>, and for \<open>bad\<close> the result is the
  malformed-reference error.
\<close>

theorem getProjectFromNoteReference_segments:
  "((getProjectFromNoteReference ref :: 'e failure + string)
       = Inl (Errorf ''Invalid Note Reference. Should be in format <api>/projects/<project_id'')
     \<longleftrightarrow> length (Split CHR ''/'' ref) < 3)
   \<and> ((\<exists>failed. (getProjectFromNoteReference ref :: 'e failure + string) = Inl failed)
     \<longleftrightarrow> length (Split CHR ''/'' ref) < 3)
   \<and> (3 \<le> length (Split CHR ''/'' ref) \<longrightarrow>
        (getProjectFromNoteReference ref :: 'e failure + string) = Inr (Split CHR ''/'' ref ! 2))
   \<and> (getProjectFromNoteReference ''api/projects/my-proj'' :: 'e failure + string)
        = Inr ''my-proj''
   \<and> (getProjectFromNoteReference ''bad'' :: 'e failure + string)
        = Inl (Errorf ''Invalid Note Reference. Should be in format <api>/projects/<project_id'')"
  by (auto simp: getProjectFromNoteReference_def Let_def)

theorem getProjectFromNoteReference_segments_witness:
  "3 \<le> length (Split CHR ''/'' ''v1alpha1/projects/kritis-test/extra'')
   \<and> (getProjectFromNoteReference ''v1alpha1/projects/kritis-test/extra'' :: unit failure + string)
        = Inr ''kritis-test''"
proof -
  have n: "3 \<le> length (Split CHR ''/'' ''v1alpha1/projects/kritis-test/extra'')"
    by simp
  have "Split CHR ''/'' ''v1alpha1/projects/kritis-test/extra'' ! 2 = ''kritis-test''"
    by simp
  with n show ?thesis
    using getProjectFromNoteReference_segments
      [of "''v1alpha1/projects/kritis-test/extra''", where 'e = unit]
    by metis
qed

text \<open>
  The reference \<open>https://api/projects/my-proj\<close> has the segments \<open>https:\<close>, the empty string,
  \<open>api\<close>, \<open>projects\<close> and \<open>my-proj\<close>: the segment of index 2 is \<open>api\<close>, not \<open>my-proj\<close>.
\<close>

theorem getProjectFromNoteReference_url_example:
  "(getProjectFromNoteReference ''https://api/projects/my-proj'' :: unit failure + string)
     = Inr ''api''
   \<and> (getProjectFromNoteReference ''https://api/projects/my-proj'' :: unit failure + string)
     \<noteq> Inr ''my-proj''"
  by (simp add: getProjectFromNoteReference_def Let_def)

text \<open>
  Claim C9. For every image reference, the resource locator is the constant prefix
  followed by the reference: it starts with the prefix, and what follows the prefix is
  the reference itself, unchanged.
\<close>

theorem getResourceUrl_prefix_then_reference:
  "getResourceUrl ext r = ResourceUrlPrefix ext @ r
   \<and> take (length (ResourceUrlPrefix ext)) (getResourceUrl ext r) = ResourceUrlPrefix ext
   \<and> drop (length (ResourceUrlPrefix ext)) (getResourceUrl ext r) = r
   \<and> drop (length (getResourceUrl ext r) - length r) (getResourceUrl ext r) = r"
  by (simp add: getResourceUrl_def)

theorem getResourceUrl_prefix_then_reference_witness:
  "getResourceUrl exampleExternals ''us.gcr.io/proj/img:tag'' = ''https://us.gcr.io/proj/img:tag''"
  using getResourceUrl_prefix_then_reference [of exampleExternals "''us.gcr.io/proj/img:tag''"]
  by (simp add: exampleExternals_def)

subsection \<open>Vulnerabilities\<close>

lemma isFixAvaliable_returns:
  "(isFixAvaliable pis :: 'e failure + bool) = Inr b
     \<Longrightarrow> b = (Some MAXIMUM \<notin> set (map versionKind pis))"
  by (induction pis) (auto simp: versionKind_def split: option.splits if_splits)

lemma isFixAvaliable_total:
  "list_all (\<lambda>p. versionKind p \<noteq> None) pis
     \<Longrightarrow> \<exists>b. (isFixAvaliable pis :: 'e failure + bool) = Inr b"
  by (induction pis) (auto simp: versionKind_def split: option.splits)

lemma isFixAvaliable_failure:
  "(isFixAvaliable pis :: 'e failure + bool) = Inl x \<Longrightarrow> x = NilDereference"
  by (induction pis) (auto split: option.splits if_splits)

text \<open>
  Whenever \<open>isFixAvaliable\<close> computes a flag, the flag is false if and only if some issue
  has a fixed-location version of kind \<open>MAXIMUM\<close>; it computes one whenever every issue
  has a fixed-location version, and for the empty list the flag is true.
\<close>

lemma isFixAvaliable_computed:
  "(isFixAvaliable [] :: 'e failure + bool) = Inr True
   \<and> (list_all (\<lambda>p. versionKind p \<noteq> None) pis \<longrightarrow>
        (isFixAvaliable pis :: 'e failure + bool)
          = Inr (Some MAXIMUM \<notin> set (map versionKind pis)))
   \<and> (\<forall>b. (isFixAvaliable pis :: 'e failure + bool) = Inr b \<longrightarrow>
          (\<not> b \<longleftrightarrow> Some MAXIMUM \<in> set (map versionKind pis)))"
  using isFixAvaliable_total [of pis, where 'e = 'e]
    isFixAvaliable_returns [of pis, where 'e = 'e] by auto

lemma isFixAvaliable_after_maximum:
  "isFixAvaliable [Some \<lparr>FixedLocation = Some \<lparr>Version = Some \<lparr>Kind = MAXIMUM\<rparr>\<rparr>\<rparr>,
                   Some \<lparr>FixedLocation = None\<rparr>]
     = (Inr False :: unit failure + bool)"
  by (simp add: GetVersion_def GetFixedLocation_def)

text \<open>
  Claim C6. For every list of package issues, the fix-availability flag is to be false if
  and only if at least one issue's fixed-location version has kind \<open>MAXIMUM\<close>, and true for
  the empty list. The code does not compute the flag for every list: at an issue without
  a fixed-location version it reads the kind through a nil pointer. For the list that
  holds just one issue without a fixed location, no issue has kind \<open>MAXIMUM\<close>, so the flag
  is to be true, and the result is the nil dereference; with an issue of kind \<open>MAXIMUM\<close>
  after it, the flag is to be false, and the result is the nil dereference again.
\<close>

theorem isFixAvaliable_missing_version:
  "Some MAXIMUM \<notin> set (map versionKind [Some \<lparr>FixedLocation = None\<rparr>])
   \<and> isFixAvaliable [Some \<lparr>FixedLocation = None\<rparr>] \<noteq> (Inr True :: unit failure + bool)
   \<and> isFixAvaliable [Some \<lparr>FixedLocation = None\<rparr>] = (Inl NilDereference :: unit failure + bool)
   \<and> Some MAXIMUM \<in> set (map versionKind
         [Some \<lparr>FixedLocation = None\<rparr>,
          Some \<lparr>FixedLocation = Some \<lparr>Version = Some \<lparr>Kind = MAXIMUM\<rparr>\<rparr>\<rparr>])
   \<and> isFixAvaliable
         [Some \<lparr>FixedLocation = None\<rparr>,
          Some \<lparr>FixedLocation = Some \<lparr>Version = Some \<lparr>Kind = MAXIMUM\<rparr>\<rparr>\<rparr>]
       = (Inl NilDereference :: unit failure + bool)"
  by (simp add: versionKind_def GetVersion_def GetFixedLocation_def)

text \<open>
  Claim C7. For every occurrence whose details are of the vulnerability variant, every
  vulnerability that is extracted has as severity the entry of the severity-name table at
  the severity value of the details, and as CVE the note name of the occurrence. One is
  extracted exactly when the details message is present and the fix-availability flag of
  its package issues is computed.
\<close>

theorem GetVulnerabilityFromOccurence_fields:
  assumes "GetDetails occ = Some (Occurrence_VulnerabilityDetails vulnDetails)"
  shows "(\<forall>v. GetVulnerabilityFromOccurence (ext :: ('e, 'x) externals_scheme) occ = Inr v \<longrightarrow>
            (\<exists>d. vulnDetails = Some d
               \<and> Vulnerability.Severity v
                   = map_index (Severity_name ext)
                       (VulnerabilityType_VulnerabilityDetails.Severity d)
               \<and> isFixAvaliable (PackageIssue d) = (Inr (HasFixAvailable v) :: 'e failure + bool))
            \<and> CVE v = GetNoteName occ)
         \<and> ((\<exists>v. GetVulnerabilityFromOccurence ext occ = Inr v) \<longleftrightarrow>
              (\<exists>d b. vulnDetails = Some d
                 \<and> isFixAvaliable (PackageIssue d) = (Inr b :: 'e failure + bool)))"
  using assms
  by (cases vulnDetails;
      cases "isFixAvaliable (GetPackageIssue vulnDetails) :: 'e failure + bool")
     (auto simp: GetVulnerabilityFromOccurence_def GetPackageIssue_def)

theorem GetVulnerabilityFromOccurence_fields_witness:
  "GetVulnerabilityFromOccurence exampleExternals (exampleOccurrence ''CVE-2018-1'')
     = Inr \<lparr>Severity = ''HIGH'', HasFixAvailable = True, CVE = ''CVE-2018-1''\<rparr>"
proof -
  let ?d = "\<lparr>VulnerabilityType_VulnerabilityDetails.Severity = 4,
             PackageIssue = [Some \<lparr>FixedLocation = Some \<lparr>Version = Some \<lparr>Kind = NORMAL\<rparr>\<rparr>\<rparr>]\<rparr>"
  have d: "GetDetails (exampleOccurrence ''CVE-2018-1'')
             = Some (Occurrence_VulnerabilityDetails (Some ?d))"
    by (simp add: exampleOccurrence_def GetDetails_def)
  have f: "isFixAvaliable (PackageIssue ?d) = (Inr True :: string failure + bool)"
    by (simp add: GetVersion_def GetFixedLocation_def)
  have n: "GetNoteName (exampleOccurrence ''CVE-2018-1'') = ''CVE-2018-1''"
    by (simp add: exampleOccurrence_def GetNoteName_def)
  have s: "map_index (Severity_name exampleExternals)
             (VulnerabilityType_VulnerabilityDetails.Severity ?d) = ''HIGH''"
    by (simp add: exampleExternals_def map_index_def)
  from GetVulnerabilityFromOccurence_fields [OF d, of exampleExternals] f
  obtain v where v: "GetVulnerabilityFromOccurence exampleExternals
                       (exampleOccurrence ''CVE-2018-1'') = Inr v"
    by blast
  with GetVulnerabilityFromOccurence_fields [OF d, of exampleExternals] f n s
  have "Vulnerability.Severity v = ''HIGH''" "HasFixAvailable v = True" "CVE v = ''CVE-2018-1''"
    by auto
  then have "v = \<lparr>Severity = ''HIGH'', HasFixAvailable = True, CVE = ''CVE-2018-1''\<rparr>"
    by simp
  with v show ?thesis by simp
qed

subsection \<open>Attestation notes and occurrences\<close>



text \<open>
  Claim C3. For every image reference that the validator rejects,
  \<open>CreateAttestationOccurence\<close> returns the invalid-image error and has made no call at
  all: the signer is not invoked and no occurrence is created.
\<close>

theorem CreateAttestationOccurence_rejects_first:
  assumes "\<not> isValidImageOnGCR ext containerImage"
  shows "CreateAttestationOccurence ext c note containerImage pgpSigningKey
           = (Inl (Errorf (containerImage @ '' is not a valid image hosted in GCR'')), [])"
  using assms by (simp add: CreateAttestationOccurence_def)

theorem CreateAttestationOccurence_rejects_first_witness:
  "\<not> isValidImageOnGCR exampleExternals ''docker.io/proj/img''
   \<and> CreateAttestationOccurence exampleExternals exampleClient None ''docker.io/proj/img''
        (Some \<lparr>PrivateKey = ''private'', PublicKey = ''public'', SecretName = ''secret-1''\<rparr>)
      = (Inl (Errorf ''docker.io/proj/img is not a valid image hosted in GCR''), [])"
proof -
  have r: "\<not> isValidImageOnGCR exampleExternals ''docker.io/proj/img''"
    by (simp add: isValidImageOnGCR_def exampleExternals_def parse_docker_io
        not_gcr_index_docker_io)
  show ?thesis
    using r CreateAttestationOccurence_rejects_first [OF r, of exampleClient None
        "Some \<lparr>PrivateKey = ''private'', PublicKey = ''public'', SecretName = ''secret-1''\<rparr>"]
    by simp
qed

subsection \<open>The registry of a parsed reference\<close>

lemma set_Join: "set (Join ps sep) \<subseteq> insert sep (\<Union>p \<in> set ps. set p)"
  by (induction ps sep rule: Join.induct) auto

lemma NewRepository_explicit_registry:
  assumes "NewRepository chk base = Some (reg, repo)"
    and "isRegistryGCR (RegistryStr reg)"
  shows "CHR ''/'' \<in> set base"
proof (rule ccontr)
  assume no: "CHR ''/'' \<notin> set base"
  then have "SplitN2 CHR ''/'' base = [base]" by (simp add: SplitN2_def)
  with assms(1) have "NewRegistry chk [] = Some reg"
    by (auto simp: NewRepository_def Let_def split: if_splits option.splits)
  then have "reg = []" by (auto simp: NewRegistry_def split: if_splits)
  with assms(2) show False
    by (simp add: RegistryStr_def DefaultRegistry_def not_gcr_index_docker_io)
qed

lemma NewTag_explicit_registry:
  assumes "NewTag chk s = Some ((reg, repo), tag)"
    and "isRegistryGCR (RegistryStr reg)"
  shows "CHR ''/'' \<in> set s"
proof -
  let ?parts = "Split CHR '':'' s"
  let ?base = "if 1 < length ?parts \<and> CHR ''/'' \<notin> set (last ?parts)
               then Join (butlast ?parts) CHR '':'' else s"
  from assms(1) have "NewRepository chk ?base = Some (reg, repo)"
    by (auto simp: NewTag_def Let_def split: if_splits option.splits)
  then have b: "CHR ''/'' \<in> set ?base"
    using assms(2) by (rule NewRepository_explicit_registry)
  show ?thesis
  proof (cases "1 < length ?parts \<and> CHR ''/'' \<notin> set (last ?parts)")
    case False
    with b show ?thesis by (auto split: if_splits)
  next
    case True
    with b have "CHR ''/'' \<in> set (Join (butlast ?parts) CHR '':'')"
      by (auto split: if_splits)
    with set_Join [of "butlast ?parts" "CHR '':''"]
    obtain p where "p \<in> set (butlast ?parts)" and "CHR ''/'' \<in> set p" by auto
    then have "p \<in> set ?parts" and "CHR ''/'' \<in> set p"
      by (auto dest: in_set_butlastD)
    then show ?thesis using set_Split_subset [of p "CHR '':''" s] by auto
  qed
qed

lemma NewDigest_explicit_registry:
  assumes "NewDigest chk s = Some ((reg, repo), digest)"
    and "isRegistryGCR (RegistryStr reg)"
  shows "CHR ''/'' \<in> set s"
proof -
  let ?parts = "Split CHR ''@'' s"
  from assms(1) have len: "length ?parts = 2"
    and "NewRepository chk (?parts ! 0) = Some (reg, repo)"
    by (auto simp: NewDigest_def Let_def split: if_splits option.splits)
  then have "CHR ''/'' \<in> set (?parts ! 0)"
    using assms(2) NewRepository_explicit_registry by blast
  moreover have "?parts ! 0 \<in> set ?parts" using len by simp
  ultimately show ?thesis using set_Split_subset [of "?parts ! 0" "CHR ''@''" s] by auto
qed

lemma name_ParseReference_slash:
  assumes "name_ParseReference chk s = Some r" and "isRegistryGCR r"
  shows "CHR ''/'' \<in> set s"
proof (cases "NewTag chk s")
  case (Some t)
  obtain reg repo tag where t: "t = ((reg, repo), tag)" by (cases t) auto
  with Some assms(1) have "r = RegistryStr reg" by (simp add: name_ParseReference_def)
  with Some t assms(2) show ?thesis using NewTag_explicit_registry by blast
next
  case None
  with assms(1) obtain d where d: "NewDigest chk s = Some d"
    by (cases "NewDigest chk s") (auto simp: name_ParseReference_def)
  obtain reg repo digest where t: "d = ((reg, repo), digest)" by (cases d) auto
  with None d assms(1) have "r = RegistryStr reg" by (simp add: name_ParseReference_def)
  with d t assms(2) show ?thesis using NewDigest_explicit_registry by blast
qed

lemma valid_image_has_project:
  assumes "ParseReference ext = name_ParseReference chk" and "isValidImageOnGCR ext s"
  shows "1 < length (Split CHR ''/'' s)"
proof -
  from assms obtain r where "name_ParseReference chk s = Some r" and "isRegistryGCR r"
    by (auto simp: isValidImageOnGCR_def split: option.splits)
  then have "CHR ''/'' \<in> set s" by (rule name_ParseReference_slash)
  then show ?thesis using Split_two_iff [of "CHR ''/''" s] by simp
qed

subsection \<open>The listing loop\<close>

lemma loop_produces_Done:
  "produces c it occs Done \<Longrightarrow>
     fethcOccurrence_loop c it acc calls
       = Some (Inr (acc @ occs), calls @ replicate (Suc (length occs)) Called_Next)"
proof (induction occs arbitrary: it acc calls)
  case Nil
  then show ?case
    by (subst fethcOccurrence_loop.simps) (auto split: prod.splits)
next
  case (Cons occ occs)
  then obtain it' where n: "Next c it = (Item occ, it')" and p: "produces c it' occs Done"
    by (auto split: prod.splits iterator_result.splits)
  show ?case
    by (subst fethcOccurrence_loop.simps)
      (simp add: n Cons.IH [OF p] replicate_app_Cons_same)
qed

lemma loop_produces_Failed:
  "produces c it occs (Failed err) \<Longrightarrow>
     fethcOccurrence_loop c it acc calls
       = Some (Inl (External err), calls @ replicate (Suc (length occs)) Called_Next)"
proof (induction occs arbitrary: it acc calls)
  case Nil
  then show ?case
    by (subst fethcOccurrence_loop.simps) (auto split: prod.splits)
next
  case (Cons occ occs)
  then obtain it' where n: "Next c it = (Item occ, it')"
    and p: "produces c it' occs (Failed err)"
    by (auto split: prod.splits iterator_result.splits)
  show ?case
    by (subst fethcOccurrence_loop.simps)
      (simp add: n Cons.IH [OF p] replicate_app_Cons_same)
qed

lemma loop_result:
  assumes "fethcOccurrence_loop c it acc calls = Some y"
  shows "(\<exists>occs. fst y = Inr occs) \<or> (\<exists>err. fst y = Inl (External err))"
proof (rule fethcOccurrence_loop.raw_induct
    [where P = "\<lambda>c it acc calls y.
                  (\<exists>occs. fst y = Inr occs) \<or> (\<exists>err. fst y = Inl (External err))",
     OF _ assms])
  fix loop :: "('a, 'b, 'c) Client_scheme \<Rightarrow> 'b \<Rightarrow> Occurrence option list \<Rightarrow> call list
                 \<Rightarrow> (('a failure + Occurrence option list) \<times> call list) option"
  fix c :: "('a, 'b, 'c) Client_scheme" and it occs calls y
  assume ih: "\<And>c it occs calls y. loop c it occs calls = Some y \<Longrightarrow>
                (\<exists>occs. fst y = Inr occs) \<or> (\<exists>err. fst y = Inl (External err))"
    and step: "(case Next c it of
                  (Item occ, it') \<Rightarrow> loop c it' (occs @ [occ]) (calls @ [Called_Next])
                | (Done, it') \<Rightarrow> Some (Inr occs, calls @ [Called_Next])
                | (Failed err, it') \<Rightarrow> Some (Inl (External err), calls @ [Called_Next]))
               = Some y"
  obtain r it' where n: "Next c it = (r, it')" by (cases "Next c it") auto
  show "(\<exists>occs. fst y = Inr occs) \<or> (\<exists>err. fst y = Inl (External err))"
  proof (cases r)
    case (Item occ)
    with n step have "loop c it' (occs @ [occ]) (calls @ [Called_Next]) = Some y" by simp
    then show ?thesis by (rule ih)
  next
    case Done
    with n step show ?thesis by auto
  next
    case (Failed err)
    with n step show ?thesis by auto
  qed
qed

subsection \<open>Operations on a validated image\<close>

text \<open>
  Claim C10. With the library's parser, every string that the validator accepts contains
  a \<open>/\<close>, so splitting it at \<open>/\<close> gives at least two segments and the segment of index 1,
  which \<open>fethcOccurrence\<close> and \<open>CreateAttestationOccurence\<close> take as the project, exists:
  neither operation ends in an index-out-of-range panic.
\<close>

theorem valid_image_project_in_bounds:
  assumes "ParseReference ext = name_ParseReference chk"
    and "isValidImageOnGCR ext containerImage"
  shows "CHR ''/'' \<in> set containerImage
     \<and> 1 < length (Split CHR ''/'' containerImage)
     \<and> (index (Split CHR ''/'' containerImage) 1 :: 'e failure + string)
          = Inr (Split CHR ''/'' containerImage ! 1)
     \<and> (\<forall>y. fethcOccurrence (ext :: ('e, 'x) externals_scheme) c containerImage kind = Some y
            \<longrightarrow> fst y \<noteq> Inl IndexOutOfRange)
     \<and> fst (CreateAttestationOccurence ext c note containerImage pgpSigningKey)
          \<noteq> Inl IndexOutOfRange"
proof -
  have len: "1 < length (Split CHR ''/'' containerImage)"
    using assms by (rule valid_image_has_project)
  then have slash: "CHR ''/'' \<in> set containerImage"
    by (simp only: Split_two_iff)
  have idx: "(index (Split CHR ''/'' containerImage) 1 :: 'e failure + string)
               = Inr (Split CHR ''/'' containerImage ! 1)"
    using len by (simp add: index_def)
  have list: "fst y \<noteq> Inl IndexOutOfRange"
    if "fethcOccurrence ext c containerImage kind = Some y" for y
  proof -
    from that assms(2) idx obtain it calls
      where "fethcOccurrence_loop c it [] calls = Some y"
      by (auto simp: fethcOccurrence_def Let_def)
    then show ?thesis using loop_result by fastforce
  qed
  have create: "fst (CreateAttestationOccurence ext c note containerImage pgpSigningKey)
                  \<noteq> Inl IndexOutOfRange"
    using assms(2) idx
    by (auto simp: CreateAttestationOccurence_def Let_def split: sum.splits option.splits)
  from slash len idx list create show ?thesis by blast
qed

theorem valid_image_project_in_bounds_witness:
  "isValidImageOnGCR exampleExternals ''us.gcr.io/proj/img:tag''
   \<and> (index (Split CHR ''/'' ''us.gcr.io/proj/img:tag'') 1 :: string failure + string)
        = Inr ''proj''"
proof -
  have p: "ParseReference exampleExternals = name_ParseReference (\<lambda>authority. True)"
    by (simp add: exampleExternals_def)
  have v: "isValidImageOnGCR exampleExternals ''us.gcr.io/proj/img:tag''"
    by (simp add: isValidImageOnGCR_def p parse_us_gcr_io gcr_us_gcr_io)
  have s: "Split CHR ''/'' ''us.gcr.io/proj/img:tag'' ! Suc 0 = ''proj''" by simp
  from valid_image_project_in_bounds [OF p v, of exampleClient "''k''" None None]
  have "(index (Split CHR ''/'' ''us.gcr.io/proj/img:tag'') 1 :: string failure + string)
          = Inr (Split CHR ''/'' ''us.gcr.io/proj/img:tag'' ! 1)"
    by blast
  with v s show ?thesis by (simp del: Split.simps)
qed

text \<open>
  Claim C4. For every image reference that the validator accepts, every note and every
  signing key for which the signer succeeds, \<open>CreateAttestationOccurence\<close> calls the signer
  once and then submits one occurrence: its resource locator is the constant prefix
  followed by the image reference, its note name is the name of the note, and its details
  are an attestation that holds the signature produced by the signer and, as key id, the
  \<open>SecretName\<close> of the signing key, and nothing else of the key. The create call is scoped
  to \<open>projects/\<close> followed by the second \<open>/\<close>-segment of the image reference (which exists
  whenever the reference was accepted through the library's parser), and its outcome is
  the outcome of the operation.
\<close>

theorem CreateAttestationOccurence_submits:
  assumes "isValidImageOnGCR ext containerImage"
    and "CreateAttestationSignature ext containerImage (Some key) = Inr sig"
    and "1 < length (Split CHR ''/'' containerImage)
         \<or> ParseReference ext = name_ParseReference chk"
  shows "CreateAttestationOccurence ext c note containerImage (Some key) =
     (let req =
        \<lparr>Occurrence = Some
           \<lparr>ResourceUrl = ResourceUrlPrefix ext @ containerImage,
            NoteName = (case note of None \<Rightarrow> [] | Some n \<Rightarrow> Note.Name n),
            Details = Some (Occurrence_Attestation
              (Some \<lparr>AttestationAuthority_Attestation.Signature =
                 Some (AttestationAuthority_Attestation_PgpSignedAttestation
                   (Some \<lparr>PgpSignedAttestation.Signature = sig,
                          KeyId = Some (PgpSignedAttestation_PgpKeyId (SecretName key))\<rparr>))\<rparr>))\<rparr>,
         CreateOccurrenceRequest.Parent = ''projects/'' @ Split CHR ''/'' containerImage ! 1\<rparr>
      in ((case CreateOccurrence c req of
             Inl err \<Rightarrow> Inl (External err) | Inr created \<Rightarrow> Inr created),
          [Called_CreateAttestationSignature containerImage (Some key),
           Called_CreateOccurrence req]))"
proof -
  have "1 < length (Split CHR ''/'' containerImage)"
    using assms(1,3) valid_image_has_project by blast
  then have "(index (Split CHR ''/'' containerImage) 1 :: 'a failure + string)
               = Inr (Split CHR ''/'' containerImage ! 1)"
    by (simp add: index_def)
  with assms(1,2) show ?thesis
    by (simp add: CreateAttestationOccurence_def Let_def getResourceUrl_def GetName_def)
qed

theorem CreateAttestationOccurence_submits_witness:
  "CreateAttestationOccurence exampleExternals exampleClient
     (Some \<lparr>Note.Name = ''projects/kritis-test/notes/prod-attestor'',
            ShortDescription = ''short'', LongDescription = ''long'', NoteType = None\<rparr>)
     ''gcr.io/proj/img''
     (Some \<lparr>PrivateKey = ''private'', PublicKey = ''public'', SecretName = ''secret-1''\<rparr>)
   = (Inr (Some
        \<lparr>ResourceUrl = ''https://gcr.io/proj/img'',
         NoteName = ''projects/kritis-test/notes/prod-attestor'',
         Details = Some (Occurrence_Attestation
           (Some \<lparr>AttestationAuthority_Attestation.Signature =
              Some (AttestationAuthority_Attestation_PgpSignedAttestation
                (Some \<lparr>PgpSignedAttestation.Signature = ''signed gcr.io/proj/img'',
                       KeyId = Some (PgpSignedAttestation_PgpKeyId ''secret-1'')\<rparr>))\<rparr>))\<rparr>),
      [Called_CreateAttestationSignature ''gcr.io/proj/img''
         (Some \<lparr>PrivateKey = ''private'', PublicKey = ''public'', SecretName = ''secret-1''\<rparr>),
       Called_CreateOccurrence
         \<lparr>Occurrence = Some
            \<lparr>ResourceUrl = ''https://gcr.io/proj/img'',
             NoteName = ''projects/kritis-test/notes/prod-attestor'',
             Details = Some (Occurrence_Attestation
               (Some \<lparr>AttestationAuthority_Attestation.Signature =
                  Some (AttestationAuthority_Attestation_PgpSignedAttestation
                    (Some \<lparr>PgpSignedAttestation.Signature = ''signed gcr.io/proj/img'',
                           KeyId = Some (PgpSignedAttestation_PgpKeyId ''secret-1'')\<rparr>))\<rparr>))\<rparr>,
          CreateOccurrenceRequest.Parent = ''projects/proj''\<rparr>])"
proof -
  let ?key = "\<lparr>PrivateKey = ''private'', PublicKey = ''public'', SecretName = ''secret-1''\<rparr>"
  have p: "name_ParseReference (\<lambda>authority. True) ''gcr.io/proj/img'' = Some ''gcr.io''"
    by (simp add: name_ParseReference_def NewTag_def NewRepository_def
        NewRegistry_def RegistryStr_def SplitN2_def checkRepository_def
        checkElement_def Let_def)
  have v: "isValidImageOnGCR exampleExternals ''gcr.io/proj/img''"
    by (simp add: isValidImageOnGCR_def exampleExternals_def p isRegistryGCR_def)
  have s: "CreateAttestationSignature exampleExternals ''gcr.io/proj/img'' (Some ?key)
             = Inr ''signed gcr.io/proj/img''"
    by (simp add: exampleExternals_def)
  have l: "1 < length (Split CHR ''/'' ''gcr.io/proj/img'')
           \<or> ParseReference exampleExternals = name_ParseReference (\<lambda>authority. True)"
    by simp
  have i: "Split CHR ''/'' ''gcr.io/proj/img'' ! Suc 0 = ''proj''" by simp
  have r: "ResourceUrlPrefix exampleExternals = ''https://''"
    by (simp add: exampleExternals_def)
  show ?thesis
    using CreateAttestationOccurence_submits [OF v s l, of exampleClient
        "Some \<lparr>Note.Name = ''projects/kritis-test/notes/prod-attestor'',
            ShortDescription = ''short'', LongDescription = ''long'', NoteType = None\<rparr>"]
    by (simp add: i r Let_def exampleClient_def del: Split.simps)
qed
subsection \<open>Quoting\<close>

lemma quoteBody_printable: "list_all printable s \<Longrightarrow> quoteBody other s = escape s"
  by (induction s) auto

lemma escape_plain: "plain s \<Longrightarrow> escape s = s"
  by (induction s) (auto simp: plain_def)

lemma plain_printable: "plain s \<Longrightarrow> list_all printable s"
  by (induction s) (auto simp: plain_def)

lemma Sprintf_q_printable:
  "list_all printable s \<Longrightarrow> Sprintf_q ext s = CHR 0x22 # escape s @ [CHR 0x22]"
  by (simp add: Sprintf_q_def quoteBody_printable)

lemma Sprintf_q_plain: "plain s \<Longrightarrow> Sprintf_q ext s = CHR 0x22 # s @ [CHR 0x22]"
  by (simp add: Sprintf_q_printable plain_printable escape_plain)

subsection \<open>Listing the occurrences of an image\<close>

lemma fethcOccurrence_accepted:
  assumes "isValidImageOnGCR ext containerImage"
    and "1 < length (Split CHR ''/'' containerImage)"
  shows "fethcOccurrence ext c containerImage kind
        = fethcOccurrence_loop c (ListOccurrences c (listRequest ext containerImage kind)) []
            [Called_ListOccurrences (listRequest ext containerImage kind)]"
proof -
  have "(index (Split CHR ''/'' containerImage) 1 :: 'a failure + string)
          = Inr (Split CHR ''/'' containerImage ! 1)"
    using assms(2) by (simp add: index_def)
  with assms(1) show ?thesis
    by (simp add: fethcOccurrence_def Let_def listRequest_def getResourceUrl_def)
qed

text \<open>
  Claim C2, amended. When the validator rejects the image reference, \<open>fethcOccurrence\<close>
  returns the invalid-image error and makes no call. Otherwise (the reference having a
  second \<open>/\<close>-segment, as every reference accepted through the library's parser has) it
  issues one listing request, with parent \<open>projects/\<close> followed by the second \<open>/\<close>-segment of
  the reference, with the page-size constant, and with the filter
  \<open>resource_url=L AND kind=K\<close>, where \<open>L\<close> and \<open>K\<close> are the resource locator and the kind as
  \<open>%q\<close> writes them: between double quotes, with a backslash before each double quote and
  each backslash inside, and with the characters outside printable ASCII as \<open>%q\<close> renders
  them. The filter is the locator and the kind just put between double quotes when both
  are plain. The operation then queries the iterator until the first answer that is not
  an occurrence. If that answer is the sentinel \<open>Done\<close>, the result is the occurrences in
  the order received; if it is an error, the result is that error and none of the
  occurrences received before it.
\<close>

theorem fethcOccurrence_listing:
  "(\<not> isValidImageOnGCR ext containerImage \<longrightarrow>
      fethcOccurrence ext c containerImage kind
        = Some (Inl (Errorf (containerImage @ '' is not a valid image hosted in GCR'')), []))
   \<and> (isValidImageOnGCR ext containerImage \<longrightarrow>
      (1 < length (Split CHR ''/'' containerImage)
         \<or> ParseReference ext = name_ParseReference chk) \<longrightarrow>
      (\<forall>occs. produces c (ListOccurrences c (listRequest ext containerImage kind)) occs Done \<longrightarrow>
         fethcOccurrence ext c containerImage kind
           = Some (Inr occs,
                   Called_ListOccurrences (listRequest ext containerImage kind)
                     # replicate (Suc (length occs)) Called_Next))
      \<and> (\<forall>occs err.
           produces c (ListOccurrences c (listRequest ext containerImage kind)) occs (Failed err) \<longrightarrow>
           fethcOccurrence ext c containerImage kind
             = Some (Inl (External err),
                     Called_ListOccurrences (listRequest ext containerImage kind)
                       # replicate (Suc (length occs)) Called_Next)))
   \<and> Filter (listRequest ext containerImage kind)
        = ''resource_url='' @ [CHR 0x22]
            @ quoteBody (QuoteOther ext) (ResourceUrlPrefix ext @ containerImage) @ [CHR 0x22]
            @ '' AND kind='' @ [CHR 0x22] @ quoteBody (QuoteOther ext) kind @ [CHR 0x22]
   \<and> (list_all printable (ResourceUrlPrefix ext @ containerImage) \<longrightarrow>
        list_all printable kind \<longrightarrow>
        Filter (listRequest ext containerImage kind)
          = ''resource_url='' @ [CHR 0x22] @ escape (ResourceUrlPrefix ext @ containerImage)
              @ [CHR 0x22] @ '' AND kind='' @ [CHR 0x22] @ escape kind @ [CHR 0x22])
   \<and> (plain (ResourceUrlPrefix ext @ containerImage) \<longrightarrow> plain kind \<longrightarrow>
        Filter (listRequest ext containerImage kind)
          = ''resource_url='' @ [CHR 0x22] @ ResourceUrlPrefix ext @ containerImage @ [CHR 0x22]
              @ '' AND kind='' @ [CHR 0x22] @ kind @ [CHR 0x22])
   \<and> ListOccurrencesRequest.PageSize (listRequest ext containerImage kind) = externals.PageSize ext
   \<and> ListOccurrencesRequest.Parent (listRequest ext containerImage kind)
        = ''projects/'' @ Split CHR ''/'' containerImage ! 1"
proof -
  let ?req = "listRequest ext containerImage kind"
  have rejected: "fethcOccurrence ext c containerImage kind
        = Some (Inl (Errorf (containerImage @ '' is not a valid image hosted in GCR'')), [])"
    if "\<not> isValidImageOnGCR ext containerImage"
    using that by (simp add: fethcOccurrence_def)
  have accepted: "fethcOccurrence ext c containerImage kind
        = fethcOccurrence_loop c (ListOccurrences c ?req) [] [Called_ListOccurrences ?req]"
    if v: "isValidImageOnGCR ext containerImage"
      and l: "1 < length (Split CHR ''/'' containerImage)
              \<or> ParseReference ext = name_ParseReference chk"
  proof -
    have "1 < length (Split CHR ''/'' containerImage)"
      using v l valid_image_has_project by blast
    with v show ?thesis by (rule fethcOccurrence_accepted)
  qed
  have finished: "fethcOccurrence ext c containerImage kind
        = Some (Inr occs, Called_ListOccurrences ?req # replicate (Suc (length occs)) Called_Next)"
    if "isValidImageOnGCR ext containerImage"
      and "1 < length (Split CHR ''/'' containerImage)
           \<or> ParseReference ext = name_ParseReference chk"
      and "produces c (ListOccurrences c ?req) occs Done" for occs
    using accepted [OF that(1,2)] loop_produces_Done [OF that(3)] by simp
  have failed: "fethcOccurrence ext c containerImage kind
        = Some (Inl (External err),
                Called_ListOccurrences ?req # replicate (Suc (length occs)) Called_Next)"
    if "isValidImageOnGCR ext containerImage"
      and "1 < length (Split CHR ''/'' containerImage)
           \<or> ParseReference ext = name_ParseReference chk"
      and "produces c (ListOccurrences c ?req) occs (Failed err)" for occs err
    using accepted [OF that(1,2)] loop_produces_Failed [OF that(3)] by simp
  have fields: "Filter ?req
        = ''resource_url='' @ [CHR 0x22]
            @ quoteBody (QuoteOther ext) (ResourceUrlPrefix ext @ containerImage) @ [CHR 0x22]
            @ '' AND kind='' @ [CHR 0x22] @ quoteBody (QuoteOther ext) kind @ [CHR 0x22]"
    "ListOccurrencesRequest.PageSize ?req = externals.PageSize ext"
    "ListOccurrencesRequest.Parent ?req = ''projects/'' @ Split CHR ''/'' containerImage ! 1"
    by (simp_all add: listRequest_def Sprintf_q_def)
  have escaped: "Filter ?req
          = ''resource_url='' @ [CHR 0x22] @ escape (ResourceUrlPrefix ext @ containerImage)
              @ [CHR 0x22] @ '' AND kind='' @ [CHR 0x22] @ escape kind @ [CHR 0x22]"
    if "list_all printable (ResourceUrlPrefix ext @ containerImage)"
      and "list_all printable kind"
    using that by (simp add: listRequest_def Sprintf_q_printable del: list_all_append)
  have exact: "Filter ?req
          = ''resource_url='' @ [CHR 0x22] @ ResourceUrlPrefix ext @ containerImage @ [CHR 0x22]
              @ '' AND kind='' @ [CHR 0x22] @ kind @ [CHR 0x22]"
    if "plain (ResourceUrlPrefix ext @ containerImage)" and "plain kind"
    using that by (simp add: listRequest_def Sprintf_q_plain)
  from rejected finished failed fields escaped exact show ?thesis by blast
qed

lemma parse_gcr_io:
  "name_ParseReference (\<lambda>authority. True) ''gcr.io/proj/img'' = Some ''gcr.io''"
  by (simp add: name_ParseReference_def NewTag_def NewRepository_def
      NewRegistry_def RegistryStr_def SplitN2_def checkRepository_def
      checkElement_def Let_def)

lemma example_request:
  "listRequest exampleExternals ''gcr.io/proj/img'' PkgVulnerability =
      \<lparr>Filter = ''resource_url='' @ [CHR 0x22] @ ''https://gcr.io/proj/img'' @ [CHR 0x22]
                  @ '' AND kind='' @ [CHR 0x22] @ ''PACKAGE_VULNERABILITY'' @ [CHR 0x22],
       PageSize = 100,
       Parent = ''projects/proj''\<rparr>"
proof -
  have "plain ''https://gcr.io/proj/img''" and "plain ''PACKAGE_VULNERABILITY''"
    by (simp_all add: plain_def printable_def)
  then show ?thesis
    by (simp add: listRequest_def exampleExternals_def PkgVulnerability_def Sprintf_q_plain)
qed

theorem fethcOccurrence_listing_witness:
  "fethcOccurrence exampleExternals exampleClient ''gcr.io/proj/img'' PkgVulnerability
     = Some (Inr [exampleOccurrence ''CVE-1'', exampleOccurrence ''CVE-2''],
             [Called_ListOccurrences
                \<lparr>Filter = ''resource_url='' @ [CHR 0x22] @ ''https://gcr.io/proj/img'' @ [CHR 0x22]
                            @ '' AND kind='' @ [CHR 0x22] @ ''PACKAGE_VULNERABILITY'' @ [CHR 0x22],
                 PageSize = 100,
                 Parent = ''projects/proj''\<rparr>,
              Called_Next, Called_Next, Called_Next])
   \<and> fethcOccurrence exampleExternals failingClient ''gcr.io/proj/img'' PkgVulnerability
     = Some (Inl (External ''unavailable''),
             [Called_ListOccurrences
                \<lparr>Filter = ''resource_url='' @ [CHR 0x22] @ ''https://gcr.io/proj/img'' @ [CHR 0x22]
                            @ '' AND kind='' @ [CHR 0x22] @ ''PACKAGE_VULNERABILITY'' @ [CHR 0x22],
                 PageSize = 100,
                 Parent = ''projects/proj''\<rparr>,
              Called_Next, Called_Next])
   \<and> fethcOccurrence exampleExternals exampleClient ''docker.io/proj/img'' PkgVulnerability
     = Some (Inl (Errorf ''docker.io/proj/img is not a valid image hosted in GCR''), [])
   \<and> plain (ResourceUrlPrefix exampleExternals @ ''gcr.io/proj/img'')
   \<and> plain PkgVulnerability"
proof -
  let ?img = "''gcr.io/proj/img''"
  let ?req = "listRequest exampleExternals ?img PkgVulnerability"
  have v: "isValidImageOnGCR exampleExternals ?img"
    by (simp add: isValidImageOnGCR_def exampleExternals_def parse_gcr_io isRegistryGCR_def)
  have r: "\<not> isValidImageOnGCR exampleExternals ''docker.io/proj/img''"
    by (simp add: isValidImageOnGCR_def exampleExternals_def parse_docker_io
        not_gcr_index_docker_io)
  have l: "1 < length (Split CHR ''/'' ?img)
           \<or> ParseReference exampleExternals = name_ParseReference (\<lambda>authority. True)"
    by simp
  have pl: "plain (ResourceUrlPrefix exampleExternals @ ?img)" "plain PkgVulnerability"
    by (simp_all add: plain_def printable_def exampleExternals_def PkgVulnerability_def)
  have ok: "produces exampleClient (ListOccurrences exampleClient ?req)
              [exampleOccurrence ''CVE-1'', exampleOccurrence ''CVE-2''] Done"
    by (simp add: exampleClient_def)
  have ko: "produces failingClient (ListOccurrences failingClient ?req)
              [exampleOccurrence ''CVE-1''] (Failed ''unavailable'')"
    by (simp add: failingClient_def exampleClient_def)
  have a: "fethcOccurrence exampleExternals exampleClient ?img PkgVulnerability
     = Some (Inr [exampleOccurrence ''CVE-1'', exampleOccurrence ''CVE-2''],
             Called_ListOccurrences ?req # replicate (Suc (length
               [exampleOccurrence ''CVE-1'', exampleOccurrence ''CVE-2''])) Called_Next)"
    using fethcOccurrence_listing
      [of exampleExternals ?img exampleClient PkgVulnerability "\<lambda>authority. True"] v l ok
    by blast
  have b: "fethcOccurrence exampleExternals failingClient ?img PkgVulnerability
     = Some (Inl (External ''unavailable''),
             Called_ListOccurrences ?req # replicate (Suc (length
               [exampleOccurrence ''CVE-1''])) Called_Next)"
    using fethcOccurrence_listing
      [of exampleExternals ?img failingClient PkgVulnerability "\<lambda>authority. True"] v l ko
    by blast
  have c: "fethcOccurrence exampleExternals exampleClient ''docker.io/proj/img'' PkgVulnerability
     = Some (Inl (Errorf (''docker.io/proj/img'' @ '' is not a valid image hosted in GCR'')), [])"
    using fethcOccurrence_listing
      [of exampleExternals "''docker.io/proj/img''" exampleClient PkgVulnerability
          "\<lambda>authority. True"] r
    by blast
  have n2: "replicate (Suc (length [exampleOccurrence ''CVE-1'', exampleOccurrence ''CVE-2'']))
              Called_Next = [Called_Next, Called_Next, Called_Next]"
    and n1: "replicate (Suc (length [exampleOccurrence ''CVE-1''])) Called_Next
              = [Called_Next, Called_Next]"
    by (simp_all add: numeral_2_eq_2)
  show ?thesis
    unfolding a b c n2 n1 example_request using pl by simp
qed

text \<open>
  The reference \<open>a".gcr.io/proj/img\<close> is accepted, and the double quote of its host is
  written with a backslash before it: the filter of the listing request is not the
  locator put between double quotes.
\<close>

theorem fethcOccurrence_filter_escapes:
  "isValidImageOnGCR exampleExternals (''a'' @ [CHR 0x22] @ ''.gcr.io/proj/img'')
   \<and> fethcOccurrence exampleExternals exampleClient
        (''a'' @ [CHR 0x22] @ ''.gcr.io/proj/img'') PkgVulnerability
     = Some (Inr [exampleOccurrence ''CVE-1'', exampleOccurrence ''CVE-2''],
             [Called_ListOccurrences
                \<lparr>Filter = ''resource_url='' @ [CHR 0x22] @ ''https://a'' @ [CHR 0x5C, CHR 0x22]
                            @ ''.gcr.io/proj/img'' @ [CHR 0x22]
                            @ '' AND kind='' @ [CHR 0x22] @ ''PACKAGE_VULNERABILITY'' @ [CHR 0x22],
                 PageSize = 100,
                 Parent = ''projects/proj''\<rparr>,
              Called_Next, Called_Next, Called_Next])
   \<and> ''resource_url='' @ [CHR 0x22] @ ''https://a'' @ [CHR 0x5C, CHR 0x22]
         @ ''.gcr.io/proj/img'' @ [CHR 0x22]
         @ '' AND kind='' @ [CHR 0x22] @ ''PACKAGE_VULNERABILITY'' @ [CHR 0x22]
     \<noteq> ''resource_url='' @ [CHR 0x22] @ ''https://'' @ (''a'' @ [CHR 0x22] @ ''.gcr.io/proj/img'')
         @ [CHR 0x22] @ '' AND kind='' @ [CHR 0x22] @ ''PACKAGE_VULNERABILITY'' @ [CHR 0x22]"
proof -
  let ?img = "''a'' @ [CHR 0x22] @ ''.gcr.io/proj/img''"
  let ?req = "listRequest exampleExternals ?img PkgVulnerability"
  have p: "name_ParseReference (\<lambda>authority. True) ?img = Some (''a'' @ [CHR 0x22] @ ''.gcr.io'')"
    by (simp add: name_ParseReference_def NewTag_def NewRepository_def
        NewRegistry_def RegistryStr_def SplitN2_def checkRepository_def
        checkElement_def Let_def)
  have v: "isValidImageOnGCR exampleExternals ?img"
    using p by (simp add: isValidImageOnGCR_def exampleExternals_def isRegistryGCR_def)
  have l: "1 < length (Split CHR ''/'' ?img)" by simp
  have pr: "list_all printable (''https://'' @ ?img)" "list_all printable ''PACKAGE_VULNERABILITY''"
    by (simp_all add: printable_def)
  have req: "?req =
      \<lparr>Filter = ''resource_url='' @ [CHR 0x22] @ ''https://a'' @ [CHR 0x5C, CHR 0x22]
                  @ ''.gcr.io/proj/img'' @ [CHR 0x22]
                  @ '' AND kind='' @ [CHR 0x22] @ ''PACKAGE_VULNERABILITY'' @ [CHR 0x22],
       PageSize = 100,
       Parent = ''projects/proj''\<rparr>"
    using pr
    by (simp add: listRequest_def exampleExternals_def PkgVulnerability_def Sprintf_q_printable)
  have ok: "produces exampleClient (ListOccurrences exampleClient ?req)
              [exampleOccurrence ''CVE-1'', exampleOccurrence ''CVE-2''] Done"
    by (simp add: exampleClient_def)
  have a: "fethcOccurrence exampleExternals exampleClient ?img PkgVulnerability
     = Some (Inr [exampleOccurrence ''CVE-1'', exampleOccurrence ''CVE-2''],
             Called_ListOccurrences ?req # replicate (Suc (length
               [exampleOccurrence ''CVE-1'', exampleOccurrence ''CVE-2''])) Called_Next)"
    using fethcOccurrence_accepted [OF v l, of exampleClient PkgVulnerability]
      loop_produces_Done [OF ok, of "[]" "[Called_ListOccurrences ?req]"]
    by simp
  have n2: "replicate (Suc (length [exampleOccurrence ''CVE-1'', exampleOccurrence ''CVE-2'']))
              Called_Next = [Called_Next, Called_Next, Called_Next]"
    by (simp add: numeral_2_eq_2)
  have d: "''resource_url='' @ [CHR 0x22] @ ''https://a'' @ [CHR 0x5C, CHR 0x22]
         @ ''.gcr.io/proj/img'' @ [CHR 0x22]
         @ '' AND kind='' @ [CHR 0x22] @ ''PACKAGE_VULNERABILITY'' @ [CHR 0x22]
     \<noteq> ''resource_url='' @ [CHR 0x22] @ ''https://'' @ (''a'' @ [CHR 0x22] @ ''.gcr.io/proj/img'')
         @ [CHR 0x22] @ '' AND kind='' @ [CHR 0x22] @ ''PACKAGE_VULNERABILITY'' @ [CHR 0x22]"
    by simp
  show ?thesis
    unfolding a n2 req using v d by simp
qed

end
